theory Spec2Isabelle
  imports Main "HOL-Library.Sublist"
begin

section \<open>Go library functions used by the exporter\<close>

text \<open>
  Go strings are byte sequences; they are modelled as \<open>string\<close> (a list of 8-bit
  characters). The functions of this section are the parts of the Go standard library
  that the three programs of the repository call on strings.
\<close>

subsection \<open>strings.Split, strings.Join, strings.ReplaceAll\<close>

text \<open>
  \<open>strings.Split(s, ",")\<close> with a one-byte separator. The result is never empty:
  the empty string splits into one empty field.
\<close>

fun Split :: "string \<Rightarrow> char \<Rightarrow> string list" where
  "Split [] sep = [[]]"
| "Split (c # cs) sep =
     (if c = sep then [] # Split cs sep
      else (case Split cs sep of
              [] \<Rightarrow> [[c]]
            | w # ws \<Rightarrow> (c # w) # ws))"

text \<open>\<open>strings.Join(elems, sep)\<close>.\<close>

fun Join :: "string list \<Rightarrow> string \<Rightarrow> string" where
  "Join [] sep = []"
| "Join [x] sep = x"
| "Join (x # y # ys) sep = x @ sep @ Join (y # ys) sep"

text \<open>
  \<open>strings.ReplaceAll(s, old, new)\<close>: the non-overlapping occurrences of \<open>old\<close> are
  replaced from left to right. For an empty \<open>old\<close> Go inserts \<open>new\<close> before the string
  and after every rune; the model does so after every byte, which is the same on ASCII
  input (the exporter calls the function with \<open>old = "."\<close> only).
\<close>

function ReplaceAll :: "string \<Rightarrow> string \<Rightarrow> string \<Rightarrow> string" where
  "ReplaceAll s old new =
     (if old = [] then new @ concat (map (\<lambda>c. c # new) s)
      else if s = [] then []
      else if take (length old) s = old
           then new @ ReplaceAll (drop (length old) s) old new
           else hd s # ReplaceAll (tl s) old new)"
  by pat_completeness auto
termination
  by (relation "measure (\<lambda>(s, old, new). length s)") auto

declare ReplaceAll.simps [simp del]

subsection \<open>fmt.Sprintf verbs\<close>

text \<open>\<open>%d\<close> of an integer: the decimal digits, with a minus sign when negative.\<close>

definition digit :: "int \<Rightarrow> char" where
  "digit n = ''0123456789'' ! nat n"

function digits :: "int \<Rightarrow> string" where
  "digits n = (if n < 10 then [digit n] else digits (n div 10) @ [digit (n mod 10)])"
  by pat_completeness auto
termination
  by (relation "measure nat") auto

declare digits.simps [simp del]

definition fmt_d :: "int \<Rightarrow> string" where
  "fmt_d i = (if i < 0 then CHR ''-'' # digits (- i) else digits i)"

text \<open>
  \<open>%q\<close> of a string is \<open>strconv.Quote\<close>: the string between double quotes, read rune
  by rune. A double quote and a backslash are backslashed; a printable rune is copied; a
  control character is written \<open>\a \b \f \n \r \t \v\<close> or \<open>\xhh\<close>; a byte that
  is not the start of a well-formed UTF-8 sequence is written \<open>\xhh\<close>; any other rune
  is written \<open>\uhhhh\<close> or \<open>\Uhhhhhhhh\<close>.
\<close>

abbreviation DQ :: char where
  "DQ \<equiv> CHR 0x22"

abbreviation BS :: char where
  "BS \<equiv> CHR 0x5C"

abbreviation NL :: string where
  "NL \<equiv> [CHR 0x0A]"

definition hexdigit :: "nat \<Rightarrow> char" where
  "hexdigit n = ''0123456789abcdef'' ! n"

text \<open>
  \<open>utf8.DecodeRuneInString\<close> on the bytes of a string: the rune and its width. The
  first byte gives the length of the sequence and the range of the second byte; a
  sequence that is cut short or has a byte out of range is \<open>RuneError\<close> of width 1.
\<close>

definition RuneError :: nat where
  "RuneError = 0xFFFD"

definition lead :: "nat \<Rightarrow> (nat \<times> nat \<times> nat) option" where
  "lead b =
     (if 0xC2 \<le> b \<and> b \<le> 0xDF then Some (2, 0x80, 0xBF)
      else if b = 0xE0 then Some (3, 0xA0, 0xBF)
      else if 0xE1 \<le> b \<and> b \<le> 0xEC then Some (3, 0x80, 0xBF)
      else if b = 0xED then Some (3, 0x80, 0x9F)
      else if b = 0xEE \<or> b = 0xEF then Some (3, 0x80, 0xBF)
      else if b = 0xF0 then Some (4, 0x90, 0xBF)
      else if 0xF1 \<le> b \<and> b \<le> 0xF3 then Some (4, 0x80, 0xBF)
      else if b = 0xF4 then Some (4, 0x80, 0x8F)
      else None)"

definition DecodeRune :: "nat list \<Rightarrow> nat \<times> nat" where
  "DecodeRune s =
     (if s = [] then (RuneError, 0)
      else if s ! 0 < 0x80 then (s ! 0, 1)
      else (case lead (s ! 0) of
              None \<Rightarrow> (RuneError, 1)
            | Some (sz, lo, hi) \<Rightarrow>
                if length s < sz then (RuneError, 1)
                else if s ! 1 < lo \<or> hi < s ! 1 then (RuneError, 1)
                else if sz \<le> 2 then ((s ! 0 mod 32) * 64 + s ! 1 mod 64, 2)
                else if s ! 2 < 0x80 \<or> 0xBF < s ! 2 then (RuneError, 1)
                else if sz \<le> 3
                     then ((s ! 0 mod 16) * 4096 + (s ! 1 mod 64) * 64 + s ! 2 mod 64, 3)
                else if s ! 3 < 0x80 \<or> 0xBF < s ! 3 then (RuneError, 1)
                else ((s ! 0 mod 8) * 262144 + (s ! 1 mod 64) * 4096
                      + (s ! 2 mod 64) * 64 + s ! 3 mod 64, 4)))"

text \<open>\<open>utf8.AppendRune\<close>: the bytes of a rune.\<close>

definition EncodeRune :: "nat \<Rightarrow> nat list" where
  "EncodeRune r =
     (if r \<le> 0x7F then [r]
      else if r \<le> 0x7FF then [0xC0 + r div 64, 0x80 + r mod 64]
      else if 0x10FFFF < r \<or> (0xD800 \<le> r \<and> r \<le> 0xDFFF) then [0xEF, 0xBF, 0xBD]
      else if r \<le> 0xFFFF
           then [0xE0 + r div 4096, 0x80 + r div 64 mod 64, 0x80 + r mod 64]
      else [0xF0 + r div 262144, 0x80 + r div 4096 mod 64, 0x80 + r div 64 mod 64,
            0x80 + r mod 64])"

text \<open>
  \<open>strconv.IsPrint\<close>: decided by comparisons up to U+00FF; beyond, by the Unicode
  tables of the library, which are the parameter \<open>tbl\<close>.
\<close>

definition IsPrint :: "(nat \<Rightarrow> bool) \<Rightarrow> nat \<Rightarrow> bool" where
  "IsPrint tbl r =
     (if r \<le> 0xFF then (0x20 \<le> r \<and> r \<le> 0x7E) \<or> (0xA1 \<le> r \<and> r \<noteq> 0xAD)
      else tbl r)"

text \<open>\<open>appendEscapedRune\<close> for the double quote as delimiter.\<close>

definition escape_rune :: "(nat \<Rightarrow> bool) \<Rightarrow> nat \<Rightarrow> string" where
  "escape_rune tbl r =
     (if r = 0x22 \<or> r = 0x5C then [BS, char_of r]
      else if IsPrint tbl r then map char_of (EncodeRune r)
      else if r = 0x07 then [BS, CHR ''a'']
      else if r = 0x08 then [BS, CHR ''b'']
      else if r = 0x0C then [BS, CHR ''f'']
      else if r = 0x0A then [BS, CHR ''n'']
      else if r = 0x0D then [BS, CHR ''r'']
      else if r = 0x09 then [BS, CHR ''t'']
      else if r = 0x0B then [BS, CHR ''v'']
      else if r < 0x20 \<or> r = 0x7F
           then [BS, CHR ''x'', hexdigit (r div 16), hexdigit (r mod 16)]
      else if 0x10FFFF < r \<or> (0xD800 \<le> r \<and> r \<le> 0xDFFF)
           then [BS, CHR ''u'', CHR ''f'', CHR ''f'', CHR ''f'', CHR ''d'']
      else if r < 0x10000
           then [BS, CHR ''u'', hexdigit (r div 4096 mod 16), hexdigit (r div 256 mod 16),
                 hexdigit (r div 16 mod 16), hexdigit (r mod 16)]
      else [BS, CHR ''U'', hexdigit (r div 268435456 mod 16), hexdigit (r div 16777216 mod 16),
            hexdigit (r div 1048576 mod 16), hexdigit (r div 65536 mod 16),
            hexdigit (r div 4096 mod 16), hexdigit (r div 256 mod 16),
            hexdigit (r div 16 mod 16), hexdigit (r mod 16)])"

text \<open>
  One turn of the loop of \<open>appendQuotedWith\<close> on a non-empty rest \<open>s\<close>: the rune read
  at its start with its width (\<open>rune_of\<close>), and the text written for it
  (\<open>quote_step\<close>).
\<close>

definition rune_of :: "string \<Rightarrow> nat \<times> nat" where
  "rune_of s =
     (if (of_char (hd s) :: nat) < 0x80 then (of_char (hd s), 1)
      else DecodeRune (map of_char s))"

definition quote_step :: "(nat \<Rightarrow> bool) \<Rightarrow> string \<Rightarrow> string" where
  "quote_step tbl s =
     (if snd (rune_of s) = 1 \<and> fst (rune_of s) = RuneError
      then [BS, CHR ''x'', hexdigit (of_char (hd s) div 16), hexdigit (of_char (hd s) mod 16)]
      else escape_rune tbl (fst (rune_of s)))"

text \<open>The loop: the rest after a rune of width \<open>w\<close> is \<open>s[w:]\<close>.\<close>

function quote_body :: "(nat \<Rightarrow> bool) \<Rightarrow> string \<Rightarrow> string" where
  "quote_body tbl [] = []"
| "quote_body tbl (c # cs) =
     quote_step tbl (c # cs) @ quote_body tbl (drop (snd (rune_of (c # cs)) - 1) cs)"
  by pat_completeness auto
termination
  by (relation "measure (\<lambda>(tbl, s). length s)") auto

definition Quote :: "(nat \<Rightarrow> bool) \<Rightarrow> string \<Rightarrow> string" where
  "Quote tbl s = DQ # quote_body tbl s @ [DQ]"

text \<open>
  The characters that \<open>%q\<close> copies unchanged whatever the tables: printable ASCII other
  than the double quote and the backslash.
\<close>

definition plain :: "char \<Rightarrow> bool" where
  "plain c = (0x20 \<le> (of_char c :: nat) \<and> (of_char c :: nat) < 0x7F \<and> c \<noteq> DQ \<and> c \<noteq> BS)"

subsection \<open>regexp: the fragment used by the filter\<close>

text \<open>
  The filter is a compiled Go regular expression, and the programs call only its
  \<open>MatchString\<close>, which reports whether the string contains a match. The programs
  below take that predicate as a parameter \<open>filt\<close>. For the patterns that the claims
  name, the fragment of the syntax made of literal ASCII characters, \<open>^\<close> (start of
  text) and \<open>$\<close> (end of text) is modelled: \<open>Compile\<close> is \<open>None\<close> on a pattern
  outside the fragment.
\<close>

datatype atom = Lit char | Bol | Eol

definition meta :: "char \<Rightarrow> bool" where
  "meta c = (c = BS \<or> c \<in> set ''.+*?()|[]{}'')"

fun Compile :: "string \<Rightarrow> atom list option" where
  "Compile [] = Some []"
| "Compile (c # cs) =
     (if meta c \<or> \<not> (of_char c :: nat) < 0x80 then None
      else (case Compile cs of
              None \<Rightarrow> None
            | Some r \<Rightarrow>
                Some ((if c = CHR ''^'' then Bol else if c = CHR ''$'' then Eol else Lit c) # r)))"

text \<open>
  \<open>match_here r atStart s\<close>: the atoms \<open>r\<close> match a prefix of the rest \<open>s\<close> of the
  text; \<open>atStart\<close> says that \<open>s\<close> is the whole text.
\<close>

fun match_here :: "atom list \<Rightarrow> bool \<Rightarrow> string \<Rightarrow> bool" where
  "match_here [] atStart s = True"
| "match_here (Bol # r) atStart s = (atStart \<and> match_here r atStart s)"
| "match_here (Eol # r) atStart s = (s = [] \<and> match_here r atStart s)"
| "match_here (Lit c # r) atStart s =
     (case s of [] \<Rightarrow> False | x # xs \<Rightarrow> x = c \<and> match_here r False xs)"

text \<open>The unanchored search: a match may start at any position of the text.\<close>

fun search :: "atom list \<Rightarrow> bool \<Rightarrow> string \<Rightarrow> bool" where
  "search r atStart [] = match_here r atStart []"
| "search r atStart (x # xs) = (match_here r atStart (x # xs) \<or> search r False xs)"

definition MatchString :: "atom list \<Rightarrow> string \<Rightarrow> bool" where
  "MatchString r s = search r True s"

text \<open>The patterns without \<open>^\<close> and \<open>$\<close> in the fragment: a literal text.\<close>

definition literal_pattern :: "string \<Rightarrow> bool" where
  "literal_pattern p =
     list_all (\<lambda>c. \<not> meta c \<and> (of_char c :: nat) < 0x80 \<and> c \<noteq> CHR ''^'' \<and> c \<noteq> CHR ''$'') p"

section \<open>The protocol exporter (first program of main.go)\<close>

text \<open>
  The JSON object of one protocol message (main.go:27). \<open>json.Unmarshal\<close>,
  \<open>time.ParseInLocation\<close> and \<open>strconv.ParseFloat\<close> are library functions and are
  parameters of the model: \<open>unmarshal\<close> gives the decoded records or \<open>None\<close> on an
  error, \<open>pt\<close> gives the parsed time as its \<open>UnixMilli()\<close> or \<open>None\<close> on an error,
  \<open>pf\<close> says whether \<open>ParseFloat(val, 64)\<close> returns no error, \<open>q\<close> is the table
  of the printable runes beyond U+00FF that \<open>%q\<close> consults.
\<close>

record record_protocol =
  Code :: string
  Msg :: string
  MsgTime :: string
  Paranoid :: int
  PToken :: string

text \<open>
  How a run of the program can end other than by returning: a runtime panic on an
  index out of range, or \<open>vlog.Fatalf\<close>, which logs and exits the process.
\<close>

datatype failure = IndexOutOfRange | Fatal

definition sMetrics :: "string list" where
  "sMetrics =
     [''ms_v_bat_soc'', ''m_units_distance'', ''ms_v_charge_voltage'', ''ms_v_charge_current'',
      ''ms_v_charge_state'', ''ms_v_charge_mode'', ''ms_v_bat_range_ideal'',
      ''ms_v_bat_range_est'', ''ms_v_charge_climit'', ''ms_v_charge_time'', ''car_charge_b4'',
      ''ms_v_charge_kwh'', ''ms_v_charge_substate'', ''ms_v_charge_state'', ''ms_v_charge_mode'',
      ''ms_v_charge_timermode'', ''ms_v_charge_timerstart'', ''car_stale_timer'',
      ''ms_v_bat_cac'', ''ms_v_charge_duration_full'', ''ms_v_charge_duration_chage_limit'',
      ''ms_v_charge_limit_range'', ''ms_v_charge_limit_soc'', ''ms_v_env_cooling'',
      ''car_cooldown_tbattery'', ''car_cooldown_timelimit'', ''car_chargeestimate'',
      ''mins_range'', ''mins_soc'', ''ms_v_bat_range_full'', ''car_chargetype'',
      ''ms_v_bat_power'', ''ms_v_bat_voltage'', ''ms_v_bat_soh'', ''ms_v_charge_power'',
      ''ms_v_charge_efficiency'', ''ms_v_bat_current'', ''ms_v_bat_range_speed'']"

definition dMetrics :: "string list" where
  "dMetrics =
     [''doors1'', ''doors2'', ''ms_v_env_locked'', ''ms_v_inv_temp'', ''ms_v_mot_temp'',
      ''ms_v_bat_temp'', ''ms_v_pos_trip'', ''ms_v_pos_odometer'', ''ms_v_pos_speed'',
      ''ms_v_env_parktime'', ''ms_v_env_temp'', ''doors3'', ''stale_temps'', ''ms_v_env_temp'',
      ''ms_v_bat_12v_voltage'', ''doors4'', ''ms_v_bat_12v_voltage_ref'', ''doors5'',
      ''ms_v_charge_temp'', ''ms_v_bat_12v_current'', ''ms_v_env_cabintemp'']"

definition lMetrics :: "string list" where
  "lMetrics =
     [''ms_v_pos_latitude'', ''ms_v_pos_longitude'', ''ms_v_pos_direction'',
      ''ms_v_pos_altitude'', ''ms_v_pos_gpslock'', ''stale'', ''ms_v_pos_speed'',
      ''ms_v_pos_trip'', ''drivemode'', ''ms_v_bat_power'', ''ms_v_bat_energy_used'',
      ''ms_v_bat_energy_recd'', ''ms_v_inv_power'', ''ms_v_inv_efficiency'',
      ''ms_v_pos_gpsmode'', ''ms_v_pos_satcount'', ''ms_v_pos_gpshdop'', ''ms_v_pos_gpsspeed'',
      ''ms_v_pos_gpssq'']"

definition wMetrics :: "string list" where
  "wMetrics =
     [''wheels_count'', ''wheel1'', ''wheel2'', ''wheel3'', ''wheel4'',
      ''ms_v_tpms_pressure_count'', ''ms_v_tpms_pressure'', ''defstale_pressure'',
      ''ms_v_tpms_temp_count'', ''ms_v_tpms_temp'', ''defstale_temp'',
      ''ms_v_tpms_health_count'', ''ms_v_tpms_health'', ''defstale_health'',
      ''ms_v_tpms_alert_count'', ''ms_v_tpms_alert'', ''defstale_alert'']"

definition metricsMap :: "string \<rightharpoonup> string list" where
  "metricsMap =
     [''S'' \<mapsto> sMetrics, ''D'' \<mapsto> dMetrics, ''L'' \<mapsto> lMetrics, ''W'' \<mapsto> wMetrics]"

text \<open>
  \<open>promMetric\<close> (main.go:171). The time is passed as its \<open>UnixMilli()\<close>. The two
  formats are \<open>"%s{value=%q} 1 %d"\<close> and \<open>"%s %s %d"\<close>.
\<close>

definition promMetric ::
  "(string \<Rightarrow> bool) \<Rightarrow> (nat \<Rightarrow> bool) \<Rightarrow> string \<Rightarrow> string \<Rightarrow> int \<Rightarrow> string" where
  "promMetric pf q name val tsMillis =
     (if \<not> pf val
      then name @ ''{value='' @ Quote q val @ ''} 1 '' @ fmt_d tsMillis
      else name @ '' '' @ val @ '' '' @ fmt_d tsMillis)"

text \<open>
  The inner loop of \<open>fetchMetrics\<close> (main.go:208-211), from index \<open>i\<close> on. The
  arguments of the logging call are evaluated first, so \<open>m[i]\<close> panics when \<open>i\<close> is
  not below \<open>len(m)\<close>, at any verbosity.
\<close>

fun fields_loop ::
  "(string \<Rightarrow> bool) \<Rightarrow> (nat \<Rightarrow> bool) \<Rightarrow> string \<Rightarrow> string list \<Rightarrow> int \<Rightarrow> nat
   \<Rightarrow> string list \<Rightarrow> string list \<Rightarrow> failure + string list" where
  "fields_loop pf q code m ts i [] metrics = Inr metrics"
| "fields_loop pf q code m ts i (val # data) metrics =
     (if i < length m
      then fields_loop pf q code m ts (Suc i) data
             (metrics @ [promMetric pf q (''ovms_'' @ code @ ''_'' @ m ! i) val ts])
      else Inl IndexOutOfRange)"

text \<open>
  The loop over the records (main.go:197-213): a record whose time does not parse is
  skipped (\<open>continue\<close>), and so is a record whose code is not a key of \<open>metricsMap\<close>.
\<close>

fun records_loop ::
  "(string \<Rightarrow> int option) \<Rightarrow> (string \<Rightarrow> bool) \<Rightarrow> (nat \<Rightarrow> bool)
   \<Rightarrow> record_protocol list \<Rightarrow> string list \<Rightarrow> failure + string list" where
  "records_loop pt pf q [] metrics = Inr metrics"
| "records_loop pt pf q (r # rs) metrics =
     (case pt (MsgTime r) of
        None \<Rightarrow> records_loop pt pf q rs metrics
      | Some ts \<Rightarrow>
          (case metricsMap (Code r) of
             None \<Rightarrow> records_loop pt pf q rs metrics
           | Some m \<Rightarrow>
               (case fields_loop pf q (Code r) m ts 0 (Split (Msg r) CHR '','') metrics of
                  Inl e \<Rightarrow> Inl e
                | Inr metrics' \<Rightarrow> records_loop pt pf q rs metrics')))"

text \<open>
  \<open>fetchMetrics\<close> (main.go:181). \<open>data\<close> is what \<open>fetch()\<close> returned: \<open>None\<close> for
  \<open>nil\<close> (the request or the read failed), else the body.
\<close>

definition fetchMetrics ::
  "(string \<Rightarrow> record_protocol list option) \<Rightarrow> (string \<Rightarrow> int option) \<Rightarrow> (string \<Rightarrow> bool)
   \<Rightarrow> (nat \<Rightarrow> bool) \<Rightarrow> string option \<Rightarrow> failure + string" where
  "fetchMetrics unmarshal pt pf q data =
     (case data of
        None \<Rightarrow> Inr []
      | Some d \<Rightarrow>
          if d = [] then Inr []
          else (case unmarshal d of
                  None \<Rightarrow> Inr []
                | Some records \<Rightarrow>
                    (case records_loop pt pf q records [] of
                       Inl e \<Rightarrow> Inl e
                     | Inr metrics \<Rightarrow> Inr (Join metrics NL @ NL))))"

text \<open>
  One turn of the refresh loop of \<open>main\<close> (main.go:226-232): the new value of
  \<open>metricsText\<close>, given the old one and what \<open>fetch()\<close> returned.
\<close>

definition refresh ::
  "(string \<Rightarrow> record_protocol list option) \<Rightarrow> (string \<Rightarrow> int option) \<Rightarrow> (string \<Rightarrow> bool)
   \<Rightarrow> (nat \<Rightarrow> bool) \<Rightarrow> string \<Rightarrow> string option \<Rightarrow> failure + string" where
  "refresh unmarshal pt pf q metricsText data =
     (case fetchMetrics unmarshal pt pf q data of
        Inl e \<Rightarrow> Inl e
      | Inr m \<Rightarrow> Inr (if m \<noteq> [] then m else metricsText))"

section \<open>The historical-data exporters (second program of main.go, part\_000)\<close>

text \<open>
  \<open>normalize\<close> (main.go:280, part\_000:28), named \<open>normalize_names\<close> here since
  \<open>normalize\<close> is a constant of HOL: a fresh slice of the same length whose element
  \<open>i\<close> is \<open>strings.ReplaceAll(in[i], ".", "_")\<close>.
\<close>

definition normalize_names :: "string list \<Rightarrow> string list" where
  "normalize_names xs = map (\<lambda>val. ReplaceAll val ''.'' ''_'') xs"

text \<open>The schema of the historical "D" records, as the source writes it (main.go:288).\<close>

definition dMetrics_raw :: "string list" where
  "dMetrics_raw =
     ['''', '''', '''', '''',
      ''v.m.temp'', ''v.b.temp'', ''v.p.trip'', ''v.p.odometer'', ''v.p.speed'',
      ''v.e.parktime'', ''v.e.temp'',
      '''', '''', '''',
      ''v.b.12v.voltage'',
      '''',
      ''v.b.12v.voltage.ref'',
      '''',
      ''v.c.temp'', ''v.b.12v.current'', ''v.e.cabintemp'']"

definition dMetrics_hist :: "string list" where
  "dMetrics_hist = normalize_names dMetrics_raw"

text \<open>The default value of the \<open>filter\<close> flag (main.go:265, part\_000:18).\<close>

definition filterFlag_default :: string where
  "filterFlag_default = ''^v_b_12v_voltage$''"

text \<open>The JSON object of one historical record (main.go:273, part\_000:21).\<close>

record record_hist =
  Data :: string
  RecordNumber :: int
  Timestamp :: string

text \<open>
  The body of the inner loop after its logging call (main.go:351-354, part\_000:88-91),
  with \<open>m = dMetrics[i]\<close>. \<open>metrics\<close> is the Go map from a metric name to its
  lines; a missing key reads as the empty slice.
\<close>

definition add_sample ::
  "(string \<Rightarrow> bool) \<Rightarrow> string \<Rightarrow> string \<Rightarrow> int \<Rightarrow> (string \<rightharpoonup> string list)
   \<Rightarrow> (string \<rightharpoonup> string list)" where
  "add_sample filt m val ts metrics =
     (if filt m
      then metrics(m \<mapsto> (case metrics m of None \<Rightarrow> [] | Some s \<Rightarrow> s)
                           @ [m @ '' '' @ val @ '' '' @ fmt_d ts])
      else metrics)"

text \<open>
  The inner loop (main.go:349-355, part\_000:86-92), from index \<open>i\<close> on. The
  logging call reads \<open>dMetrics[i]\<close> first, so an index that is not below
  \<open>len(dMetrics)\<close> panics whatever the filter says.
\<close>

fun fields_hist ::
  "(string \<Rightarrow> bool) \<Rightarrow> int \<Rightarrow> nat \<Rightarrow> string list \<Rightarrow> (string \<rightharpoonup> string list)
   \<Rightarrow> failure + (string \<rightharpoonup> string list)" where
  "fields_hist filt ts i [] metrics = Inr metrics"
| "fields_hist filt ts i (val # data) metrics =
     (if i < length dMetrics_hist
      then fields_hist filt ts (Suc i) data (add_sample filt (dMetrics_hist ! i) val ts metrics)
      else Inl IndexOutOfRange)"

text \<open>
  The loop over the records (main.go:342-356, part\_000:79-93): a time that does not
  parse ends the process through \<open>vlog.Fatalf\<close>.
\<close>

fun records_hist ::
  "(string \<Rightarrow> int option) \<Rightarrow> (string \<Rightarrow> bool) \<Rightarrow> record_hist list
   \<Rightarrow> (string \<rightharpoonup> string list) \<Rightarrow> failure + (string \<rightharpoonup> string list)" where
  "records_hist pt filt [] metrics = Inr metrics"
| "records_hist pt filt (r # rs) metrics =
     (case pt (Timestamp r) of
        None \<Rightarrow> Inl Fatal
      | Some ts \<Rightarrow>
          (case fields_hist filt ts 0 (Split (Data r) CHR '','') metrics of
             Inl e \<Rightarrow> Inl e
           | Inr metrics' \<Rightarrow> records_hist pt filt rs metrics'))"

text \<open>
  The rendering loop (main.go:358-361, part\_000:95-98). Go ranges over a map in an
  unspecified order: \<open>ks\<close> is the order in which this run meets the keys, a duplicate
  free list of the keys of the map (\<open>range_order\<close>).
\<close>

definition range_order :: "string list \<Rightarrow> (string \<rightharpoonup> string list) \<Rightarrow> bool" where
  "range_order ks metrics = (distinct ks \<and> set ks = dom metrics)"

definition render :: "string list \<Rightarrow> (string \<rightharpoonup> string list) \<Rightarrow> string" where
  "render ks metrics =
     concat (map (\<lambda>m. ''# TYPE '' @ m @ '' gauge'' @ NL
                       @ Join (case metrics m of None \<Rightarrow> [] | Some s \<Rightarrow> s) NL @ NL) ks)"

text \<open>
  \<open>fetchMetrics\<close> of the second program (main.go:328), from the body \<open>data\<close> that
  \<open>fetch()\<close> returned, and the loop of \<open>main\<close> in part\_000 (part\_000:69-98), from the
  bytes \<open>b\<close> of the file: they differ in what a JSON error does. \<open>filt\<close> is the
  \<open>MatchString\<close> of the compiled filter flag (\<open>regexp.MustCompile\<close> panics on a
  pattern that does not compile; the model starts after it).
\<close>

definition fetchMetrics_hist ::
  "(string \<Rightarrow> record_hist list option) \<Rightarrow> (string \<Rightarrow> int option) \<Rightarrow> (string \<Rightarrow> bool)
   \<Rightarrow> string list \<Rightarrow> string \<Rightarrow> failure + string" where
  "fetchMetrics_hist unmarshal pt filt ks data =
     (case unmarshal data of
        None \<Rightarrow> Inr []
      | Some records \<Rightarrow>
          (case records_hist pt filt records Map.empty of
             Inl e \<Rightarrow> Inl e
           | Inr metrics \<Rightarrow> Inr (render ks metrics)))"

definition main_file ::
  "(string \<Rightarrow> record_hist list option) \<Rightarrow> (string \<Rightarrow> int option) \<Rightarrow> (string \<Rightarrow> bool)
   \<Rightarrow> string list \<Rightarrow> string \<Rightarrow> failure + string" where
  "main_file unmarshal pt filt ks b =
     (case unmarshal b of
        None \<Rightarrow> Inl Fatal
      | Some records \<Rightarrow>
          (case records_hist pt filt records Map.empty of
             Inl e \<Rightarrow> Inl e
           | Inr metrics \<Rightarrow> Inr (render ks metrics)))"

section \<open>Sample library behaviour for the concrete runs\<close>

text \<open>
  The concrete runs below need values for the library parameters. These functions
  agree with the Go library on the strings that the runs use: the two times are
  1700000000 and 1700000001 seconds after the epoch, \<open>garbage\<close> is not a time;
  \<open>42.5\<close> and \<open>12.6\<close> are floats, \<open>stopped\<close>, \<open>a"b\<close> and the values with a
  tab or a byte beyond ASCII are not; the euro sign \<open>U+20AC\<close> is printable and the
  zero-width space \<open>U+200B\<close> is not; \<open>[]\<close> is the empty JSON array and \<open>{\<close> is not
  JSON.
\<close>

definition parseTime_ex :: "string \<Rightarrow> int option" where
  "parseTime_ex s =
     (if s = ''2023-11-14 22:13:20'' then Some 1700000000000
      else if s = ''2023-11-14 22:13:21'' then Some 1700000001000
      else None)"

definition parseFloat_ex :: "string \<Rightarrow> bool" where
  "parseFloat_ex s = (s = ''42.5'' \<or> s = ''12.6'')"

definition isPrint_ex :: "nat \<Rightarrow> bool" where
  "isPrint_ex r = (r = 0x20AC)"

definition unmarshal_ex :: "string \<Rightarrow> record_protocol list option" where
  "unmarshal_ex d = (if d = ''[]'' then Some [] else None)"

text \<open>The records of the concrete runs.\<close>

definition wrec_ex :: record_protocol where
  "wrec_ex = \<lparr>Code = ''W'', Msg = ''4,42.5,12.6,42.5,12.6,4,42.5,0,4,12.6,0,4,42.5,0,0,stopped,0'',
              MsgTime = ''2023-11-14 22:13:20'', Paranoid = 0, PToken = ''''\<rparr>"

definition wrec18_ex :: record_protocol where
  "wrec18_ex = \<lparr>Code = ''W'', Msg = ''4,42.5,12.6,42.5,12.6,4,42.5,0,4,12.6,0,4,42.5,0,0,stopped,0,extra'',
              MsgTime = ''2023-11-14 22:13:20'', Paranoid = 0, PToken = ''''\<rparr>"

definition srec_ex :: record_protocol where
  "srec_ex = \<lparr>Code = ''S'', Msg = ''42.5'', MsgTime = ''2023-11-14 22:13:20'', Paranoid = 0,
              PToken = ''''\<rparr>"

definition srec_bad_ex :: record_protocol where
  "srec_bad_ex = \<lparr>Code = ''S'', Msg = ''12.6'', MsgTime = ''garbage'', Paranoid = 0,
              PToken = ''''\<rparr>"

definition lrec_ex :: record_protocol where
  "lrec_ex = \<lparr>Code = ''L'', Msg = ''12.6'', MsgTime = ''2023-11-14 22:13:21'', Paranoid = 0,
              PToken = ''''\<rparr>"

definition hrec_ex :: record_hist where
  "hrec_ex = \<lparr>Data = ''0,0,0,0,42.5,0,0,0,0,0,0,0,0,0,12.6'', RecordNumber = 1,
              Timestamp = ''2023-11-14 22:13:20''\<rparr>"

definition hrec_bad_ex :: record_hist where
  "hrec_bad_ex = \<lparr>Data = ''0,0,0,0,42.5,0,0,0,0,0,0,0,0,0,12.6'', RecordNumber = 2,
              Timestamp = ''garbage''\<rparr>"

definition hrec22_ex :: record_hist where
  "hrec22_ex = \<lparr>Data = ''0,0,0,0,0,0,0,0,0,0,0,0,0,0,0,0,0,0,0,0,0,0'', RecordNumber = 3,
              Timestamp = ''2023-11-14 22:13:20''\<rparr>"

definition hrec1_ex :: record_hist where
  "hrec1_ex = \<lparr>Data = ''12.6'', RecordNumber = 4, Timestamp = ''2023-11-14 22:13:20''\<rparr>"

definition hrec2_ex :: record_hist where
  "hrec2_ex = \<lparr>Data = ''0,0,0,0,42.5,0,0,0,0,0,0,0,0,0,12.6,0,12.6'', RecordNumber = 5,
              Timestamp = ''2023-11-14 22:13:21''\<rparr>"

definition hrec_stopped_ex :: record_hist where
  "hrec_stopped_ex = \<lparr>Data = ''0,0,0,0,42.5,0,0,0,0,0,0,0,0,0,stopped'', RecordNumber = 6,
              Timestamp = ''2023-11-14 22:13:20''\<rparr>"

text \<open>
  The body of a response of the historical API with the two records \<open>hrec_ex\<close> and
  \<open>hrec2_ex\<close>, and the body with the one record \<open>hrec_stopped_ex\<close>, as JSON text,
  and a decoder that knows these two bodies.
\<close>

definition dq :: "string \<Rightarrow> string" where
  "dq s = DQ # s @ [DQ]"

definition json_hist :: "record_hist \<Rightarrow> string" where
  "json_hist r =
     ''{'' @ dq ''h_data'' @ '':'' @ dq (Data r) @ '','' @ dq ''h_recordnumber'' @ '':''
     @ fmt_d (RecordNumber r) @ '','' @ dq ''h_timestamp'' @ '':'' @ dq (Timestamp r) @ ''}''"

definition body_hist_ex :: string where
  "body_hist_ex = ''['' @ json_hist hrec_ex @ '','' @ json_hist hrec2_ex @ '']''"

definition body_stopped_ex :: string where
  "body_stopped_ex = ''['' @ json_hist hrec_stopped_ex @ '']''"

definition unmarshal_hist_ex :: "string \<Rightarrow> record_hist list option" where
  "unmarshal_hist_ex d =
     (if d = body_hist_ex then Some [hrec_ex, hrec2_ex]
      else if d = body_stopped_ex then Some [hrec_stopped_ex]
      else None)"

section \<open>What the historical loop computes\<close>

text \<open>
  A description of the result of the loop that does not run it: the lines of the metric
  \<open>m\<close> that one record contributes from slot \<open>i\<close> on are those of the positions whose
  slot is named \<open>m\<close>, in position order; a batch contributes the lines of its records
  in record order. The loop is compared with this description in
  \<open>records_hist_lookup\<close>.
\<close>

definition lines_of :: "string \<Rightarrow> int \<Rightarrow> nat \<Rightarrow> string list \<Rightarrow> string list" where
  "lines_of m ts i data =
     map (\<lambda>(n, v). n @ '' '' @ v @ '' '' @ fmt_d ts)
         (filter (\<lambda>(n, v). n = m) (zip (drop i dMetrics_hist) data))"

definition batch_lines :: "(string \<Rightarrow> int option) \<Rightarrow> string \<Rightarrow> record_hist list \<Rightarrow> string list" where
  "batch_lines pt m rs =
     concat (map (\<lambda>r. case pt (Timestamp r) of
                         None \<Rightarrow> []
                       | Some ts \<Rightarrow> lines_of m ts 0 (Split (Data r) CHR '','')) rs)"

section \<open>Properties of the library functions and of the loops\<close>

lemma ReplaceAll_single:
  "ReplaceAll s [c] [d] = map (\<lambda>x. if x = c then d else x) s"
proof (induction s)
  case Nil
  show ?case by (simp add: ReplaceAll.simps)
next
  case (Cons x xs)
  show ?case
  proof (cases "x = c")
    case True
    then show ?thesis
      using Cons.IH by (subst ReplaceAll.simps) simp
  next
    case False
    then show ?thesis
      using Cons.IH by (subst ReplaceAll.simps) simp
  qed
qed

lemma normalize_map:
  "normalize_names xs = map (map (\<lambda>c. if c = CHR ''.'' then CHR ''_'' else c)) xs"
  by (simp add: normalize_names_def ReplaceAll_single)

lemma fields_loop_eq:
  "i \<le> length m \<Longrightarrow> fields_loop pf q code m ts i data metrics =
     (if i + length data \<le> length m
      then Inr (metrics @ map (\<lambda>(name, val). promMetric pf q (''ovms_'' @ code @ ''_'' @ name) val ts)
                            (zip (drop i m) data))
      else Inl IndexOutOfRange)"
proof (induction data arbitrary: i metrics)
  case Nil
  then show ?case by simp
next
  case (Cons val data)
  show ?case
  proof (cases "i < length m")
    case True
    then have d: "drop i m = m ! i # drop (Suc i) m"
      by (simp add: Cons_nth_drop_Suc)
    show ?thesis using True by (simp add: Cons.IH d)
  next
    case False
    then show ?thesis by simp
  qed
qed

lemma metricsMap_dom: "dom metricsMap = {''S'', ''D'', ''L'', ''W''}"
  by (auto simp: metricsMap_def split: if_splits)

lemma metricsMap_nonempty_names: "metricsMap c = Some m \<Longrightarrow> [] \<notin> set m"
  by (auto simp: metricsMap_def sMetrics_def dMetrics_def lMetrics_def wMetrics_def split: if_splits)

lemma records_loop_skip:
  "records_loop pt pf q rs acc = records_loop pt pf q (filter (\<lambda>r. pt (MsgTime r) \<noteq> None) rs) acc"
  by (induction rs arbitrary: acc) (auto split: option.splits sum.splits)

lemma fields_hist_ok:
  "i + length data \<le> length dMetrics_hist \<Longrightarrow> \<exists>ms'. fields_hist filt ts i data ms = Inr ms'"
  by (induction data arbitrary: i ms) auto

lemma fields_hist_eq:
  "i \<le> length dMetrics_hist \<Longrightarrow>
   fields_hist filt ts i data ms =
     (if i + length data \<le> length dMetrics_hist
      then Inr (foldl (\<lambda>ms (m, val). add_sample filt m val ts ms) ms
                      (zip (drop i dMetrics_hist) data))
      else Inl IndexOutOfRange)"
proof (induction data arbitrary: i ms)
  case Nil
  then show ?case by simp
next
  case (Cons val data)
  show ?case
  proof (cases "i < length dMetrics_hist")
    case True
    then have d: "drop i dMetrics_hist = dMetrics_hist ! i # drop (Suc i) dMetrics_hist"
      by (simp add: Cons_nth_drop_Suc)
    show ?thesis using True by (simp add: Cons.IH d)
  next
    case False
    then show ?thesis by simp
  qed
qed

lemma records_hist_bad_time:
  "r \<in> set rs \<Longrightarrow> pt (Timestamp r) = None \<Longrightarrow> \<exists>e. records_hist pt filt rs ms = Inl e"
  by (induction rs arbitrary: ms) (auto split: option.splits sum.splits)

lemma records_hist_bad_time_Fatal:
  "r \<in> set rs \<Longrightarrow> pt (Timestamp r) = None \<Longrightarrow>
   list_all (\<lambda>r. length (Split (Data r) CHR '','') \<le> length dMetrics_hist) rs \<Longrightarrow>
   records_hist pt filt rs ms = Inl Fatal"
proof (induction rs arbitrary: ms)
  case Nil
  then show ?case by simp
next
  case (Cons a rs)
  show ?case
  proof (cases "pt (Timestamp a)")
    case None
    then show ?thesis by simp
  next
    case (Some ts)
    from Cons.prems(3) have "0 + length (Split (Data a) CHR '','') \<le> length dMetrics_hist" by simp
    from fields_hist_ok [OF this] obtain ms' where
      f: "fields_hist filt ts 0 (Split (Data a) CHR '','') ms = Inr ms'" by blast
    from Cons.prems Some have "r \<in> set rs" by auto
    with Cons.IH Cons.prems have "records_hist pt filt rs ms' = Inl Fatal" by simp
    with Some f show ?thesis by simp
  qed
qed

lemma len_hist: "length dMetrics_hist = 21"
  by (simp add: dMetrics_hist_def dMetrics_raw_def normalize_names_def)

lemma map2_nth_upt:
  "length xs = length ys \<Longrightarrow>
   map (\<lambda>(a, b). f a b) (zip xs ys) = map (\<lambda>i. f (xs ! i) (ys ! i)) [0..<length xs]"
  by (intro nth_equalityI) simp_all

lemma Split_nonempty: "Split s c \<noteq> []"
  by (induction s) (auto split: list.splits)

lemma lines_of_Cons:
  "i < length dMetrics_hist \<Longrightarrow>
   lines_of m ts i (val # data) =
     (if dMetrics_hist ! i = m then [m @ '' '' @ val @ '' '' @ fmt_d ts] else [])
     @ lines_of m ts (Suc i) data"
  by (simp add: lines_of_def Cons_nth_drop_Suc [symmetric])

lemma lines_of_Nil: "lines_of m ts i [] = []"
  by (simp add: lines_of_def)

lemma fields_hist_lookup:
  "fields_hist filt ts i data ms = Inr ms' \<Longrightarrow>
   ms' m = (if filt m \<and> lines_of m ts i data \<noteq> []
            then Some ((case ms m of None \<Rightarrow> [] | Some s \<Rightarrow> s) @ lines_of m ts i data)
            else ms m)"
proof (induction data arbitrary: i ms)
  case Nil
  then show ?case by (simp add: lines_of_Nil)
next
  case (Cons val data)
  from Cons.prems have i: "i < length dMetrics_hist"
    by (auto split: if_splits)
  let ?ms1 = "add_sample filt (dMetrics_hist ! i) val ts ms"
  from Cons.prems i have r: "fields_hist filt ts (Suc i) data ?ms1 = Inr ms'"
    by simp
  note ih = Cons.IH [OF r]
  show ?case
    unfolding ih lines_of_Cons [OF i]
    by (auto simp: add_sample_def split: option.splits)
qed

lemma records_hist_lookup:
  "records_hist pt filt rs ms = Inr ms' \<Longrightarrow>
   ms' m = (if filt m \<and> batch_lines pt m rs \<noteq> []
            then Some ((case ms m of None \<Rightarrow> [] | Some s \<Rightarrow> s) @ batch_lines pt m rs)
            else ms m)"
proof (induction rs arbitrary: ms)
  case Nil
  then show ?case by (simp add: batch_lines_def)
next
  case (Cons r rs)
  from Cons.prems obtain ts where ts: "pt (Timestamp r) = Some ts"
    by (auto split: option.splits)
  from Cons.prems ts obtain ms1 where
    f: "fields_hist filt ts 0 (Split (Data r) CHR '','') ms = Inr ms1"
    and rest: "records_hist pt filt rs ms1 = Inr ms'"
    by (auto split: sum.splits)
  have b: "batch_lines pt m (r # rs) = lines_of m ts 0 (Split (Data r) CHR '','') @ batch_lines pt m rs"
    by (simp add: batch_lines_def ts)
  show ?case
    unfolding Cons.IH [OF rest] fields_hist_lookup [OF f] b
    by (auto split: option.splits)
qed

lemma records_hist_ok:
  "list_all (\<lambda>r. pt (Timestamp r) \<noteq> None
                 \<and> length (Split (Data r) CHR '','') \<le> length dMetrics_hist) rs \<Longrightarrow>
   \<exists>ms'. records_hist pt filt rs ms = Inr ms'"
proof (induction rs arbitrary: ms)
  case Nil
  show ?case by simp
next
  case (Cons r rs)
  from Cons.prems obtain ts where ts: "pt (Timestamp r) = Some ts" by auto
  from Cons.prems have "0 + length (Split (Data r) CHR '','') \<le> length dMetrics_hist" by simp
  from fields_hist_ok [OF this] obtain ms1 where
    f: "fields_hist filt ts 0 (Split (Data r) CHR '','') ms = Inr ms1" by blast
  from Cons.IH [of ms1] Cons.prems obtain ms' where "records_hist pt filt rs ms1 = Inr ms'"
    by auto
  with ts f show ?case by simp
qed

lemma match_here_lits: "match_here (map Lit p) b s \<longleftrightarrow> prefix p s"
proof (induction p arbitrary: b s)
  case Nil
  show ?case by simp
next
  case (Cons c p)
  show ?case by (cases s) (auto simp: Cons.IH)
qed

lemma search_lits: "search (map Lit p) b s \<longleftrightarrow> sublist p s"
proof (induction s arbitrary: b)
  case Nil
  show ?case by (simp add: match_here_lits)
next
  case (Cons x xs)
  show ?case by (simp add: match_here_lits Cons.IH sublist_Cons_right)
qed

lemma Compile_lits: "literal_pattern p \<Longrightarrow> Compile p = Some (map Lit p)"
  by (induction p) (auto simp: literal_pattern_def)

lemma search_Bol_False: "\<not> search (Bol # r) False s"
  by (induction s) auto

lemma match_here_lits_Eol: "match_here (map Lit p @ [Eol]) b s \<longleftrightarrow> s = p"
proof (induction p arbitrary: b s)
  case Nil
  show ?case by auto
next
  case (Cons c p)
  show ?case by (cases s) (auto simp: Cons.IH)
qed

lemma MatchString_anchored: "MatchString (Bol # map Lit p @ [Eol]) s \<longleftrightarrow> s = p"
  by (cases s) (auto simp: MatchString_def match_here_lits_Eol search_Bol_False)

lemma Compile_default:
  "Compile filterFlag_default = Some (Bol # map Lit ''v_b_12v_voltage'' @ [Eol])"
  by (simp add: filterFlag_default_def meta_def)

lemma MatchString_default:
  "Compile filterFlag_default = Some re \<Longrightarrow> MatchString re s \<longleftrightarrow> s = ''v_b_12v_voltage''"
  using MatchString_anchored [of "''v_b_12v_voltage''" s] by (simp add: Compile_default)

lemma dMetrics_hist_eq:
  "dMetrics_hist =
     ['''', '''', '''', '''', ''v_m_temp'', ''v_b_temp'', ''v_p_trip'', ''v_p_odometer'',
      ''v_p_speed'', ''v_e_parktime'', ''v_e_temp'', '''', '''', '''', ''v_b_12v_voltage'', '''',
      ''v_b_12v_voltage_ref'', '''', ''v_c_temp'', ''v_b_12v_current'', ''v_e_cabintemp'']"
  by (simp add: dMetrics_hist_def dMetrics_raw_def normalize_map)

lemma filter_zip_key_none:
  "v \<notin> set xs \<Longrightarrow> filter (\<lambda>(n, y). n = v) (zip xs ys) = []"
  by (auto simp: filter_empty_conv dest: set_zip_leftD)

lemma filter_zip_unique:
  assumes "v \<notin> set pre" and "v \<notin> set suf"
  shows "filter (\<lambda>(n, y). n = v) (zip (pre @ v # suf) ys) =
           (if length pre < length ys then [(v, ys ! length pre)] else [])"
proof (cases "drop (length pre) ys")
  case Nil
  then show ?thesis
    using assms by (simp add: zip_append1 filter_zip_key_none)
next
  case (Cons d ds)
  then have l: "length pre < length ys" by (cases "length pre < length ys") auto
  from Cons l have d: "d = ys ! length pre"
    by (metis Cons_nth_drop_Suc list.inject)
  show ?thesis
    using assms l d Cons by (simp add: zip_append1 filter_zip_key_none)
qed

lemma lines_of_voltage:
  "lines_of ''v_b_12v_voltage'' ts 0 data =
     (if 14 < length data then [''v_b_12v_voltage '' @ data ! 14 @ '' '' @ fmt_d ts] else [])"
proof -
  have split: "dMetrics_hist =
      ['''', '''', '''', '''', ''v_m_temp'', ''v_b_temp'', ''v_p_trip'', ''v_p_odometer'',
      ''v_p_speed'', ''v_e_parktime'', ''v_e_temp'', '''', '''', ''''] @ ''v_b_12v_voltage'' #
      ['''', ''v_b_12v_voltage_ref'', '''', ''v_c_temp'', ''v_b_12v_current'', ''v_e_cabintemp'']"
    by (simp add: dMetrics_hist_eq)
  show ?thesis
    unfolding lines_of_def drop_0 split
    by (subst filter_zip_unique) (simp_all add: eval_nat_numeral)
qed

lemma batch_lines_voltage:
  "list_all (\<lambda>r. pt (Timestamp r) \<noteq> None) rs \<Longrightarrow>
   batch_lines pt ''v_b_12v_voltage'' rs =
     map (\<lambda>r. ''v_b_12v_voltage '' @ Split (Data r) CHR '','' ! 14 @ '' '' @ fmt_d (the (pt (Timestamp r))))
         (filter (\<lambda>r. 14 < length (Split (Data r) CHR '','')) rs)"
  unfolding batch_lines_def
  by (induction rs) (auto simp: lines_of_voltage)

lemma records_hist_times:
  "records_hist pt filt rs ms = Inr ms' \<Longrightarrow> list_all (\<lambda>r. pt (Timestamp r) \<noteq> None) rs"
  by (induction rs arbitrary: ms) (auto split: option.splits sum.splits)

lemma lines_of_empty_name: "data \<noteq> [] \<Longrightarrow> lines_of [] ts 0 data \<noteq> []"
  by (cases data) (simp_all add: lines_of_def dMetrics_hist_eq)

lemma batch_lines_empty_name:
  "list_all (\<lambda>r. pt (Timestamp r) \<noteq> None) rs \<Longrightarrow> rs \<noteq> [] \<Longrightarrow> batch_lines pt [] rs \<noteq> []"
  by (cases rs) (auto simp: batch_lines_def lines_of_empty_name Split_nonempty)

lemma singleton_order: "distinct ks \<Longrightarrow> set ks = {v} \<Longrightarrow> ks = [v]"
  by (cases ks) (auto simp: subset_singleton_iff dest!: sym [of _ "{v}"])

lemma of_char_DQ: "(of_char c :: nat) = 0x22 \<longleftrightarrow> c = DQ"
  using of_char_eq_iff [of c DQ, where ?'a = nat] by simp

lemma of_char_BS: "(of_char c :: nat) = 0x5C \<longleftrightarrow> c = BS"
  using of_char_eq_iff [of c BS, where ?'a = nat] by simp

lemma quote_body_plain_Cons: "plain c \<Longrightarrow> quote_body tbl (c # cs) = c # quote_body tbl cs"
  by (simp add: plain_def quote_step_def rune_of_def escape_rune_def IsPrint_def RuneError_def
      EncodeRune_def of_char_DQ of_char_BS)

lemma quote_body_plain: "list_all plain val \<Longrightarrow> quote_body tbl val = val"
  by (induction val) (simp_all add: quote_body_plain_Cons del: quote_body.simps(2))

lemmas quote_eval = Quote_def quote_step_def rune_of_def escape_rune_def IsPrint_def RuneError_def
  EncodeRune_def DecodeRune_def lead_def hexdigit_def char_of_def bit_0 isPrint_ex_def

lemma set_lines_of:
  "set (lines_of m ts 0 data) =
     {m @ '' '' @ data ! i @ '' '' @ fmt_d ts | i.
        i < length data \<and> i < length dMetrics_hist \<and> dMetrics_hist ! i = m}"
  by (auto simp: lines_of_def set_zip)

lemma set_batch_lines:
  "l \<in> set (batch_lines pt m rs) \<longleftrightarrow>
     (\<exists>r t i. r \<in> set rs \<and> pt (Timestamp r) = Some t
        \<and> i < length (Split (Data r) CHR '','') \<and> i < length dMetrics_hist
        \<and> dMetrics_hist ! i = m
        \<and> l = m @ '' '' @ Split (Data r) CHR '','' ! i @ '' '' @ fmt_d t)"
  by (auto simp: batch_lines_def set_lines_of split: option.splits) metis+

lemma refresh_keeps_on_failure:
  "data = None \<or> data = Some [] \<or> (\<exists>d. data = Some d \<and> unmarshal d = None) \<Longrightarrow>
   refresh unmarshal pt pf q metricsText data = Inr metricsText"
  by (auto simp: refresh_def fetchMetrics_def)

lemma refresh_publishes_decoded:
  "d \<noteq> [] \<Longrightarrow> unmarshal d = Some rs \<Longrightarrow> records_loop pt pf q rs [] = Inr ls \<Longrightarrow>
   refresh unmarshal pt pf q metricsText (Some d) = Inr (Join ls NL @ NL)"
  by (simp add: refresh_def fetchMetrics_def)

section \<open>Fields beyond the schema\<close>

text \<open>
  C1 (amended). Neither program checks the position against the length of the schema.
  In the protocol exporter, a record with a known code and a time that parses is
  decoded without a panic exactly when its payload has at most as many fields as the
  schema has slots; it then adds one line per field and the loop goes on with the next
  record. With more fields than slots the run ends in an index-out-of-range panic at
  the first field beyond the schema, and no later record is processed. The historical
  loop does the same with its schema of 21 slots.
\<close>

theorem too_many_fields_panics:
  "(metricsMap (Code r) = Some m \<and> pt (MsgTime r) = Some ts \<longrightarrow>
      records_loop pt pf q (r # rs) acc =
        (if length (Split (Msg r) CHR '','') \<le> length m
         then records_loop pt pf q rs
                (acc @ map (\<lambda>(name, val). promMetric pf q (''ovms_'' @ Code r @ ''_'' @ name) val ts)
                           (zip m (Split (Msg r) CHR '','')))
         else Inl IndexOutOfRange))
   \<and> (pt (Timestamp h) = Some ts \<longrightarrow>
      records_hist pt filt (h # hs) ms =
        (if length (Split (Data h) CHR '','') \<le> length dMetrics_hist
         then records_hist pt filt hs
                (foldl (\<lambda>ms (m, val). add_sample filt m val ts ms) ms
                       (zip dMetrics_hist (Split (Data h) CHR '','')))
         else Inl IndexOutOfRange))"
  by (simp add: fields_loop_eq fields_hist_eq)

text \<open>
  A "W" record with 18 fields for the 17 slots of its schema, followed by a good record,
  and a historical record with 22 fields followed by a good one: both runs panic.
\<close>

theorem too_many_fields_panics_witness:
  "metricsMap (Code wrec18_ex) = Some wMetrics
   \<and> parseTime_ex (MsgTime wrec18_ex) = Some 1700000000000
   \<and> \<not> length (Split (Msg wrec18_ex) CHR '','') \<le> length wMetrics
   \<and> records_loop parseTime_ex parseFloat_ex isPrint_ex [wrec18_ex, wrec_ex] [] = Inl IndexOutOfRange
   \<and> parseTime_ex (Timestamp hrec22_ex) = Some 1700000000000
   \<and> \<not> length (Split (Data hrec22_ex) CHR '','') \<le> length dMetrics_hist
   \<and> records_hist parseTime_ex (MatchString []) [hrec22_ex, hrec_ex] Map.empty = Inl IndexOutOfRange"
proof -
  have h1: "metricsMap (Code wrec18_ex) = Some wMetrics"
    by (simp add: wrec18_ex_def metricsMap_def)
  have h2: "parseTime_ex (MsgTime wrec18_ex) = Some 1700000000000"
    by (simp add: wrec18_ex_def parseTime_ex_def)
  have h3: "\<not> length (Split (Msg wrec18_ex) CHR '','') \<le> length wMetrics"
    by (simp add: wrec18_ex_def wMetrics_def)
  have h4: "parseTime_ex (Timestamp hrec22_ex) = Some 1700000000000"
    by (simp add: hrec22_ex_def parseTime_ex_def)
  have h5: "\<not> length (Split (Data hrec22_ex) CHR '','') \<le> length dMetrics_hist"
    by (simp add: hrec22_ex_def len_hist)
  from too_many_fields_panics [of wrec18_ex wMetrics parseTime_ex 1700000000000 parseFloat_ex
      isPrint_ex "[wrec_ex]" "[]" hrec22_ex "MatchString []" "[hrec_ex]" Map.empty]
    h1 h2 h3 h4 h5
  show ?thesis by simp
qed

text \<open>
  The claim as stated (extra fields are skipped and processing continues) fails on the
  same "W" record: the run does not return lines, it panics.
\<close>

theorem extra_field_panics_counterexample:
  "metricsMap (Code wrec18_ex) = Some wMetrics
   \<and> parseTime_ex (MsgTime wrec18_ex) = Some 1700000000000
   \<and> length wMetrics = 17
   \<and> length (Split (Msg wrec18_ex) CHR '','') = 18
   \<and> records_loop parseTime_ex parseFloat_ex isPrint_ex [wrec18_ex, wrec_ex] [] = Inl IndexOutOfRange"
proof -
  have h1: "metricsMap (Code wrec18_ex) = Some wMetrics"
    by (simp add: wrec18_ex_def metricsMap_def)
  have h2: "parseTime_ex (MsgTime wrec18_ex) = Some 1700000000000"
    by (simp add: wrec18_ex_def parseTime_ex_def)
  have h3: "length wMetrics = 17" by (simp add: wMetrics_def)
  have h4: "length (Split (Msg wrec18_ex) CHR '','') = 18"
    by (simp add: wrec18_ex_def)
  have "records_loop parseTime_ex parseFloat_ex isPrint_ex [wrec18_ex, wrec_ex] [] = Inl IndexOutOfRange"
    using h1 h2 h3 h4 by (simp add: fields_loop_eq)
  with h1 h2 h3 h4 show ?thesis by simp
qed

section \<open>The cache after an empty batch\<close>

text \<open>
  C2. The claim asks that a cycle that decodes to an empty batch leaves the cached text
  as it was. In the protocol exporter the body \<open>[]\<close> decodes to no record,
  \<open>fetchMetrics\<close> returns \<open>strings.Join(nil, "\n") + "\n"\<close>, which is a single
  newline and not the empty string, and the refresh loop replaces the cached text by
  it. (A failed fetch, an empty body and a JSON error do keep the cache:
  \<open>refresh_keeps_on_failure\<close>.)
\<close>

theorem empty_batch_replaces_cache:
  "unmarshal_ex ''[]'' = Some []
   \<and> fetchMetrics unmarshal_ex parseTime_ex parseFloat_ex isPrint_ex (Some ''[]'') = Inr NL
   \<and> refresh unmarshal_ex parseTime_ex parseFloat_ex isPrint_ex
        (''ovms_S_ms_v_bat_soc 42.5 1700000000000'' @ NL) (Some ''[]'') = Inr NL"
  by (simp add: unmarshal_ex_def refresh_def fetchMetrics_def)

section \<open>The two line shapes\<close>

text \<open>
  C3 (amended). In the protocol exporter, \<open>promMetric\<close> emits one of two lines, chosen
  by whether the raw value parses as a float: \<open>name value ts\<close> if it does, and
  otherwise \<open>name{value=Q} 1 ts\<close>, where \<open>Q\<close> is the raw value as \<open>%q\<close> writes it:
  between double quotes, rune by rune, with the escapes of \<open>quote_body\<close>. \<open>Q\<close> is the
  raw value itself between the quotes when the value is made of printable ASCII
  characters other than the double quote and the backslash. The historical exporters
  make no such choice: for a batch that the loop decodes, the lines of a metric are
  exactly the lines \<open>name value ts\<close> of the positions with that name, whatever the
  value, for the metrics that the filter keeps.
\<close>

theorem promMetric_shapes:
  "(pf val \<longrightarrow> promMetric pf q name val ts = name @ '' '' @ val @ '' '' @ fmt_d ts)
   \<and> (\<not> pf val \<longrightarrow>
        promMetric pf q name val ts =
          name @ ''{value='' @ [DQ] @ quote_body q val @ [DQ] @ ''} 1 '' @ fmt_d ts)
   \<and> (list_all plain val \<longrightarrow> quote_body q val = val)
   \<and> (records_hist pt filt rs Map.empty = Inr ms \<longrightarrow>
        (\<forall>m l. l \<in> set (case ms m of None \<Rightarrow> [] | Some s \<Rightarrow> s) \<longleftrightarrow>
           filt m \<and>
           (\<exists>r t i. r \<in> set rs \<and> pt (Timestamp r) = Some t
              \<and> i < length (Split (Data r) CHR '','') \<and> i < length dMetrics_hist
              \<and> dMetrics_hist ! i = m
              \<and> l = m @ '' '' @ Split (Data r) CHR '','' ! i @ '' '' @ fmt_d t)))"
proof -
  have a: "pf val \<longrightarrow> promMetric pf q name val ts = name @ '' '' @ val @ '' '' @ fmt_d ts"
    by (simp add: promMetric_def)
  have b: "\<not> pf val \<longrightarrow>
        promMetric pf q name val ts =
          name @ ''{value='' @ [DQ] @ quote_body q val @ [DQ] @ ''} 1 '' @ fmt_d ts"
    by (simp add: promMetric_def Quote_def)
  have c: "list_all plain val \<longrightarrow> quote_body q val = val"
    by (simp add: quote_body_plain)
  have d: "records_hist pt filt rs Map.empty = Inr ms \<longrightarrow>
        (\<forall>m l. l \<in> set (case ms m of None \<Rightarrow> [] | Some s \<Rightarrow> s) \<longleftrightarrow>
           filt m \<and>
           (\<exists>r t i. r \<in> set rs \<and> pt (Timestamp r) = Some t
              \<and> i < length (Split (Data r) CHR '','') \<and> i < length dMetrics_hist
              \<and> dMetrics_hist ! i = m
              \<and> l = m @ '' '' @ Split (Data r) CHR '','' ! i @ '' '' @ fmt_d t))"
  proof
    assume h: "records_hist pt filt rs Map.empty = Inr ms"
    show "\<forall>m l. l \<in> set (case ms m of None \<Rightarrow> [] | Some s \<Rightarrow> s) \<longleftrightarrow>
           filt m \<and>
           (\<exists>r t i. r \<in> set rs \<and> pt (Timestamp r) = Some t
              \<and> i < length (Split (Data r) CHR '','') \<and> i < length dMetrics_hist
              \<and> dMetrics_hist ! i = m
              \<and> l = m @ '' '' @ Split (Data r) CHR '','' ! i @ '' '' @ fmt_d t)"
    proof (intro allI)
      fix m l
      have "set (case ms m of None \<Rightarrow> [] | Some s \<Rightarrow> s) =
              (if filt m then set (batch_lines pt m rs) else {})"
        using records_hist_lookup [OF h, of m] by simp
      then show "l \<in> set (case ms m of None \<Rightarrow> [] | Some s \<Rightarrow> s) \<longleftrightarrow>
           filt m \<and>
           (\<exists>r t i. r \<in> set rs \<and> pt (Timestamp r) = Some t
              \<and> i < length (Split (Data r) CHR '','') \<and> i < length dMetrics_hist
              \<and> dMetrics_hist ! i = m
              \<and> l = m @ '' '' @ Split (Data r) CHR '','' ! i @ '' '' @ fmt_d t)"
        by (simp add: set_batch_lines)
    qed
  qed
  from a b c d show ?thesis by blast
qed

text \<open>
  The two examples of the specification, \<open>42.5\<close> and \<open>stopped\<close>; a value with the two
  bytes of \<open>U+00E9\<close> followed by a byte \<open>0xFF\<close>, and a value that is the zero-width
  space \<open>U+200B\<close>; and a historical record whose voltage field is \<open>stopped\<close>.
\<close>

theorem promMetric_shapes_witness:
  "parseFloat_ex ''42.5''
   \<and> promMetric parseFloat_ex isPrint_ex ''ovms_S_ms_v_bat_soc'' ''42.5'' 1700000000000
       = ''ovms_S_ms_v_bat_soc 42.5 1700000000000''
   \<and> \<not> parseFloat_ex ''stopped'' \<and> list_all plain ''stopped''
   \<and> promMetric parseFloat_ex isPrint_ex ''ovms_S_ms_v_charge_state'' ''stopped'' 1700000000000
       = ''ovms_S_ms_v_charge_state{value='' @ [DQ] @ ''stopped'' @ [DQ] @ ''} 1 1700000000000''
   \<and> \<not> parseFloat_ex [CHR 0xC3, CHR 0xA9, CHR 0xFF]
   \<and> promMetric parseFloat_ex isPrint_ex ''ovms_S_ms_v_charge_state'' [CHR 0xC3, CHR 0xA9, CHR 0xFF]
         1700000000000
       = ''ovms_S_ms_v_charge_state{value='' @ [DQ, CHR 0xC3, CHR 0xA9, BS, CHR ''x'', CHR ''f'', CHR ''f'', DQ]
         @ ''} 1 1700000000000''
   \<and> \<not> parseFloat_ex [CHR 0xE2, CHR 0x80, CHR 0x8B]
   \<and> promMetric parseFloat_ex isPrint_ex ''ovms_S_ms_v_charge_state'' [CHR 0xE2, CHR 0x80, CHR 0x8B]
         1700000000000
       = ''ovms_S_ms_v_charge_state{value='' @ [DQ, BS, CHR ''u'', CHR ''2'', CHR ''0'', CHR ''0'', CHR ''b'', DQ]
         @ ''} 1 1700000000000''
   \<and> records_hist parseTime_ex (MatchString (Bol # map Lit ''v_b_12v_voltage'' @ [Eol]))
        [hrec_stopped_ex] Map.empty
       = Inr [''v_b_12v_voltage'' \<mapsto> [''v_b_12v_voltage stopped 1700000000000'']]
   \<and> (\<forall>l. l \<in> set (case [''v_b_12v_voltage'' \<mapsto> [''v_b_12v_voltage stopped 1700000000000'']]
                          ''v_b_12v_voltage'' of None \<Rightarrow> [] | Some s \<Rightarrow> s)
          \<longleftrightarrow> l = ''v_b_12v_voltage stopped 1700000000000'')"
proof -
  have f: "fmt_d 1700000000000 = ''1700000000000''"
    by (simp add: fmt_d_def digits.simps digit_def)
  have a: "parseFloat_ex ''42.5''" by (simp add: parseFloat_ex_def)
  have b: "\<not> parseFloat_ex ''stopped''" by (simp add: parseFloat_ex_def)
  have c: "list_all plain ''stopped''" by (simp add: plain_def)
  have b2: "\<not> parseFloat_ex [CHR 0xC3, CHR 0xA9, CHR 0xFF]" by (simp add: parseFloat_ex_def)
  have b3: "\<not> parseFloat_ex [CHR 0xE2, CHR 0x80, CHR 0x8B]" by (simp add: parseFloat_ex_def)
  have q2: "quote_body isPrint_ex [CHR 0xC3, CHR 0xA9, CHR 0xFF]
            = [CHR 0xC3, CHR 0xA9, BS, CHR ''x'', CHR ''f'', CHR ''f'']"
    by (simp add: quote_eval)
  have q3: "quote_body isPrint_ex [CHR 0xE2, CHR 0x80, CHR 0x8B]
            = [BS, CHR ''u'', CHR ''2'', CHR ''0'', CHR ''0'', CHR ''b'']"
    by (simp add: quote_eval)
  have h: "records_hist parseTime_ex (MatchString (Bol # map Lit ''v_b_12v_voltage'' @ [Eol]))
        [hrec_stopped_ex] Map.empty
       = Inr [''v_b_12v_voltage'' \<mapsto> [''v_b_12v_voltage stopped 1700000000000'']]"
    by (simp add: dMetrics_hist_eq hrec_stopped_ex_def parseTime_ex_def MatchString_def
        add_sample_def fmt_d_def digits.simps digit_def)
  from promMetric_shapes [of parseFloat_ex "''42.5''" isPrint_ex "''ovms_S_ms_v_bat_soc''"
      1700000000000]
    promMetric_shapes [of parseFloat_ex "''stopped''" isPrint_ex "''ovms_S_ms_v_charge_state''"
      1700000000000 parseTime_ex "MatchString (Bol # map Lit ''v_b_12v_voltage'' @ [Eol])"
      "[hrec_stopped_ex]" "[''v_b_12v_voltage'' \<mapsto> [''v_b_12v_voltage stopped 1700000000000'']]"]
    promMetric_shapes [of parseFloat_ex "[CHR 0xC3, CHR 0xA9, CHR 0xFF]" isPrint_ex
      "''ovms_S_ms_v_charge_state''" 1700000000000]
    promMetric_shapes [of parseFloat_ex "[CHR 0xE2, CHR 0x80, CHR 0x8B]" isPrint_ex
      "''ovms_S_ms_v_charge_state''" 1700000000000]
    a b c b2 b3 q2 q3 f h
  show ?thesis by simp
qed

text \<open>
  The claim as stated fails in both places. In \<open>promMetric\<close> the raw value is not
  written between the quotes as it is when it has a double quote or a tab: \<open>a"b\<close> is
  written \<open>"a\"b"\<close>, and a tab is written \<open>\t\<close>. In the historical exporter the
  value \<open>stopped\<close>, which is no float, is written as the sample value of the line and
  not as a label.
\<close>

theorem promMetric_quote_counterexample:
  "\<not> parseFloat_ex [CHR ''a'', DQ, CHR ''b'']
   \<and> promMetric parseFloat_ex isPrint_ex ''ovms_S_ms_v_charge_state'' [CHR ''a'', DQ, CHR ''b''] 1700000000000
       = ''ovms_S_ms_v_charge_state{value='' @ [DQ, CHR ''a'', BS, DQ, CHR ''b'', DQ]
         @ ''} 1 1700000000000''
   \<and> promMetric parseFloat_ex isPrint_ex ''ovms_S_ms_v_charge_state'' [CHR ''a'', DQ, CHR ''b''] 1700000000000
       \<noteq> ''ovms_S_ms_v_charge_state{value='' @ [DQ] @ [CHR ''a'', DQ, CHR ''b''] @ [DQ]
         @ ''} 1 1700000000000''
   \<and> \<not> parseFloat_ex [CHR ''a'', CHR 0x09, CHR ''b'']
   \<and> promMetric parseFloat_ex isPrint_ex ''ovms_S_ms_v_charge_state'' [CHR ''a'', CHR 0x09, CHR ''b''] 1700000000000
       = ''ovms_S_ms_v_charge_state{value='' @ [DQ, CHR ''a'', BS, CHR ''t'', CHR ''b'', DQ]
         @ ''} 1 1700000000000''
   \<and> \<not> parseFloat_ex ''stopped''
   \<and> unmarshal_hist_ex body_stopped_ex = Some [hrec_stopped_ex]
   \<and> fetchMetrics_hist unmarshal_hist_ex parseTime_ex
        (MatchString (Bol # map Lit ''v_b_12v_voltage'' @ [Eol])) [''v_b_12v_voltage'']
        body_stopped_ex
       = Inr (''# TYPE v_b_12v_voltage gauge'' @ NL
              @ ''v_b_12v_voltage stopped 1700000000000'' @ NL)
   \<and> main_file unmarshal_hist_ex parseTime_ex
        (MatchString (Bol # map Lit ''v_b_12v_voltage'' @ [Eol])) [''v_b_12v_voltage'']
        body_stopped_ex
       = Inr (''# TYPE v_b_12v_voltage gauge'' @ NL
              @ ''v_b_12v_voltage stopped 1700000000000'' @ NL)"
proof -
  have p: "\<not> parseFloat_ex [CHR ''a'', DQ, CHR ''b'']
   \<and> promMetric parseFloat_ex isPrint_ex ''ovms_S_ms_v_charge_state'' [CHR ''a'', DQ, CHR ''b''] 1700000000000
       = ''ovms_S_ms_v_charge_state{value='' @ [DQ, CHR ''a'', BS, DQ, CHR ''b'', DQ]
         @ ''} 1 1700000000000''
   \<and> promMetric parseFloat_ex isPrint_ex ''ovms_S_ms_v_charge_state'' [CHR ''a'', DQ, CHR ''b''] 1700000000000
       \<noteq> ''ovms_S_ms_v_charge_state{value='' @ [DQ] @ [CHR ''a'', DQ, CHR ''b''] @ [DQ]
         @ ''} 1 1700000000000''
   \<and> \<not> parseFloat_ex [CHR ''a'', CHR 0x09, CHR ''b'']
   \<and> promMetric parseFloat_ex isPrint_ex ''ovms_S_ms_v_charge_state'' [CHR ''a'', CHR 0x09, CHR ''b''] 1700000000000
       = ''ovms_S_ms_v_charge_state{value='' @ [DQ, CHR ''a'', BS, CHR ''t'', CHR ''b'', DQ]
         @ ''} 1 1700000000000''
   \<and> \<not> parseFloat_ex ''stopped''"
    by (simp add: parseFloat_ex_def promMetric_def quote_eval fmt_d_def digits.simps digit_def)
  have u: "unmarshal_hist_ex body_stopped_ex = Some [hrec_stopped_ex]"
    by (simp add: unmarshal_hist_ex_def body_stopped_ex_def body_hist_ex_def json_hist_def
        dq_def hrec_ex_def hrec2_ex_def hrec_stopped_ex_def)
  have h: "records_hist parseTime_ex (MatchString (Bol # map Lit ''v_b_12v_voltage'' @ [Eol]))
        [hrec_stopped_ex] Map.empty
       = Inr [''v_b_12v_voltage'' \<mapsto> [''v_b_12v_voltage stopped 1700000000000'']]"
    by (simp add: dMetrics_hist_eq hrec_stopped_ex_def parseTime_ex_def MatchString_def
        add_sample_def fmt_d_def digits.simps digit_def)
  have f: "fetchMetrics_hist unmarshal_hist_ex parseTime_ex
        (MatchString (Bol # map Lit ''v_b_12v_voltage'' @ [Eol])) [''v_b_12v_voltage'']
        body_stopped_ex
       = Inr (''# TYPE v_b_12v_voltage gauge'' @ NL
              @ ''v_b_12v_voltage stopped 1700000000000'' @ NL)"
    by (simp only: fetchMetrics_hist_def u h option.case sum.case) (simp add: render_def)
  have g: "main_file unmarshal_hist_ex parseTime_ex
        (MatchString (Bol # map Lit ''v_b_12v_voltage'' @ [Eol])) [''v_b_12v_voltage'']
        body_stopped_ex
       = Inr (''# TYPE v_b_12v_voltage gauge'' @ NL
              @ ''v_b_12v_voltage stopped 1700000000000'' @ NL)"
    by (simp only: main_file_def u h option.case sum.case) (simp add: render_def)
  from p u f g show ?thesis by simp
qed

section \<open>A time that does not parse\<close>

text \<open>
  C4. Each program follows one policy for a time that does not parse. The protocol
  exporter skips the record and nothing else: a batch gives what the batch without its
  bad records gives. The historical programs stop: a batch with a bad record yields no
  metrics at all, the run ends in \<open>vlog.Fatalf\<close> (when no record has more fields
  than the schema has slots; a panic on such a record may come first).
\<close>

theorem bad_timestamp_policy:
  "records_loop pt pf q rs acc =
     records_loop pt pf q (filter (\<lambda>r. pt (MsgTime r) \<noteq> None) rs) acc
   \<and> ((\<exists>h \<in> set hs. pt (Timestamp h) = None) \<longrightarrow>
         (\<exists>e. records_hist pt filt hs ms = Inl e)
         \<and> (list_all (\<lambda>h. length (Split (Data h) CHR '','') \<le> length dMetrics_hist) hs \<longrightarrow>
              records_hist pt filt hs ms = Inl Fatal))"
  using records_loop_skip [of pt pf q rs acc] records_hist_bad_time [of _ hs pt filt ms]
    records_hist_bad_time_Fatal [of _ hs pt filt ms]
  by blast

text \<open>
  A good record, a record with the time \<open>garbage\<close>, and a good record: the protocol
  loop returns the lines of the two good records, the historical loop ends in
  \<open>Fatal\<close>.
\<close>

theorem bad_timestamp_policy_witness:
  "records_loop parseTime_ex parseFloat_ex isPrint_ex [srec_ex, srec_bad_ex, lrec_ex] [] =
     records_loop parseTime_ex parseFloat_ex isPrint_ex [srec_ex, lrec_ex] []
   \<and> records_loop parseTime_ex parseFloat_ex isPrint_ex [srec_ex, lrec_ex] [] =
       Inr [''ovms_S_ms_v_bat_soc 42.5 1700000000000'',
            ''ovms_L_ms_v_pos_latitude 12.6 1700000001000'']
   \<and> parseTime_ex (Timestamp hrec_bad_ex) = None
   \<and> records_hist parseTime_ex (MatchString []) [hrec_ex, hrec_bad_ex, hrec_ex] Map.empty = Inl Fatal"
proof -
  have f: "filter (\<lambda>r. parseTime_ex (MsgTime r) \<noteq> None) [srec_ex, srec_bad_ex, lrec_ex]
           = [srec_ex, lrec_ex]"
    by (simp add: srec_ex_def srec_bad_ex_def lrec_ex_def parseTime_ex_def)
  have g: "records_loop parseTime_ex parseFloat_ex isPrint_ex [srec_ex, lrec_ex] [] =
       Inr [''ovms_S_ms_v_bat_soc 42.5 1700000000000'',
            ''ovms_L_ms_v_pos_latitude 12.6 1700000001000'']"
    by (simp add: srec_ex_def lrec_ex_def parseTime_ex_def metricsMap_def sMetrics_def
        lMetrics_def promMetric_def parseFloat_ex_def fmt_d_def digits.simps digit_def)
  have b: "parseTime_ex (Timestamp hrec_bad_ex) = None"
    by (simp add: hrec_bad_ex_def parseTime_ex_def)
  have l: "list_all (\<lambda>h. length (Split (Data h) CHR '','') \<le> length dMetrics_hist)
            [hrec_ex, hrec_bad_ex, hrec_ex]"
    by (simp add: hrec_ex_def hrec_bad_ex_def len_hist)
  from bad_timestamp_policy [of parseTime_ex parseFloat_ex isPrint_ex "[srec_ex, srec_bad_ex, lrec_ex]"
      "[]" "[hrec_ex, hrec_bad_ex, hrec_ex]" "MatchString []" Map.empty] f g b l
  show ?thesis by simp
qed

section \<open>Slots with an empty name\<close>

text \<open>
  C5 (amended). The historical loop has no test for an empty slot name: the filter
  alone decides. For a batch that the loop decodes, the empty name is a key of the
  metrics map (and so gets a \<open># TYPE\<close> group and lines) exactly when the filter
  matches the empty string and the batch has a record; its lines are then those of
  the positions with an empty slot name. With a filter that does not match the empty
  string, such as the default one, no sample has an empty name.
\<close>

theorem empty_name_iff_filter:
  assumes "records_hist pt filt rs Map.empty = Inr ms"
  shows "ms [] = (if filt [] \<and> rs \<noteq> [] then Some (batch_lines pt [] rs) else None)
         \<and> ([] \<in> dom ms \<longleftrightarrow> filt [] \<and> rs \<noteq> [])"
proof -
  have e: "rs = [] \<Longrightarrow> batch_lines pt [] rs = []" by (simp add: batch_lines_def)
  have n: "rs \<noteq> [] \<Longrightarrow> batch_lines pt [] rs \<noteq> []"
    using batch_lines_empty_name [OF records_hist_times [OF assms]] .
  have "ms [] = (if filt [] \<and> rs \<noteq> [] then Some (batch_lines pt [] rs) else None)"
    using records_hist_lookup [OF assms, of "[]"] e n by (cases "rs = []") auto
  then show ?thesis by (auto simp: dom_def)
qed

text \<open>With the default filter, a record of 15 fields gives the one voltage line.\<close>

theorem empty_name_iff_filter_witness:
  "records_hist parseTime_ex (MatchString (Bol # map Lit ''v_b_12v_voltage'' @ [Eol])) [hrec_ex] Map.empty
     = Inr [''v_b_12v_voltage'' \<mapsto> [''v_b_12v_voltage 12.6 1700000000000'']]
   \<and> \<not> MatchString (Bol # map Lit ''v_b_12v_voltage'' @ [Eol]) []
   \<and> [''v_b_12v_voltage'' \<mapsto> [''v_b_12v_voltage 12.6 1700000000000'']] [] = None
   \<and> [] \<notin> dom [''v_b_12v_voltage'' \<mapsto> [''v_b_12v_voltage 12.6 1700000000000'']]"
proof -
  have h: "records_hist parseTime_ex (MatchString (Bol # map Lit ''v_b_12v_voltage'' @ [Eol])) [hrec_ex] Map.empty
     = Inr [''v_b_12v_voltage'' \<mapsto> [''v_b_12v_voltage 12.6 1700000000000'']]"
    by (simp add: dMetrics_hist_eq hrec_ex_def parseTime_ex_def MatchString_def add_sample_def
        fmt_d_def digits.simps digit_def)
  have m: "\<not> MatchString (Bol # map Lit ''v_b_12v_voltage'' @ [Eol]) []"
    using MatchString_anchored [of "''v_b_12v_voltage''" "[]"] by simp
  from empty_name_iff_filter [OF h] h m show ?thesis by simp
qed

text \<open>
  The claim as stated (no empty name for any filter, also one that matches everything)
  fails for the empty pattern, which matches every string: a record with the one field
  \<open>12.6\<close> gives a group with the empty name.
\<close>

theorem empty_name_sample_counterexample:
  "Compile [] = Some []
   \<and> dMetrics_hist ! 0 = []
   \<and> records_hist parseTime_ex (MatchString []) [hrec1_ex] Map.empty
       = Inr [[] \<mapsto> ['' 12.6 1700000000000'']]
   \<and> render [[]] [[] \<mapsto> ['' 12.6 1700000000000'']]
       = ''# TYPE  gauge'' @ NL @ '' 12.6 1700000000000'' @ NL"
  by (simp add: dMetrics_hist_eq hrec1_ex_def parseTime_ex_def MatchString_def render_def add_sample_def
      fmt_d_def digits.simps digit_def)

section \<open>A payload with as many fields as slots\<close>

text \<open>
  C6. For a record of the protocol exporter with a supported code (a key \<open>S\<close>, \<open>D\<close>,
  \<open>L\<close> or \<open>W\<close> of \<open>metricsMap\<close>), a time that parses, and exactly as many payload
  fields as its schema has slots, decoding adds exactly one line per slot, in slot
  order: line \<open>i\<close> is the sample of slot \<open>i\<close> with field \<open>i\<close>. No slot of these
  schemas has an empty name, so this is one sample per non-empty slot.
\<close>

theorem decode_exact_fields:
  assumes "metricsMap (Code r) = Some m" and "pt (MsgTime r) = Some ts"
    and "length (Split (Msg r) CHR '','') = length m"
  shows "records_loop pt pf q [r] acc =
           Inr (acc @ map (\<lambda>i. promMetric pf q (''ovms_'' @ Code r @ ''_'' @ m ! i)
                                  (Split (Msg r) CHR '','' ! i) ts) [0..<length m])
         \<and> [] \<notin> set m \<and> Code r \<in> {''S'', ''D'', ''L'', ''W''}"
proof -
  have a: "records_loop pt pf q [r] acc =
           Inr (acc @ map (\<lambda>i. promMetric pf q (''ovms_'' @ Code r @ ''_'' @ m ! i)
                                  (Split (Msg r) CHR '','' ! i) ts) [0..<length m])"
    using assms by (simp add: fields_loop_eq map2_nth_upt)
  have c: "Code r \<in> {''S'', ''D'', ''L'', ''W''}"
    using assms(1) metricsMap_dom by blast
  from a c metricsMap_nonempty_names [OF assms(1)] show ?thesis by simp
qed

text \<open>A "W" record with 17 fields for the 17 slots of its schema.\<close>

theorem decode_exact_fields_witness:
  "metricsMap (Code wrec_ex) = Some wMetrics
   \<and> parseTime_ex (MsgTime wrec_ex) = Some 1700000000000
   \<and> length (Split (Msg wrec_ex) CHR '','') = length wMetrics
   \<and> records_loop parseTime_ex parseFloat_ex isPrint_ex [wrec_ex] [] =
           Inr (map (\<lambda>i. promMetric parseFloat_ex isPrint_ex (''ovms_'' @ Code wrec_ex @ ''_'' @ wMetrics ! i)
                                  (Split (Msg wrec_ex) CHR '','' ! i) 1700000000000) [0..<length wMetrics])"
proof -
  have h1: "metricsMap (Code wrec_ex) = Some wMetrics"
    by (simp add: wrec_ex_def metricsMap_def)
  have h2: "parseTime_ex (MsgTime wrec_ex) = Some 1700000000000"
    by (simp add: wrec_ex_def parseTime_ex_def)
  have h3: "length (Split (Msg wrec_ex) CHR '','') = length wMetrics"
    by (simp add: wrec_ex_def wMetrics_def)
  from decode_exact_fields [where pt = parseTime_ex and pf = parseFloat_ex and q = isPrint_ex
      and acc = "[]", OF h1 h2 h3] h1 h2 h3
  show ?thesis by simp
qed

section \<open>Normalisation of metric names\<close>

text \<open>
  C7. For every list of metric names, \<open>normalize\<close> replaces every \<open>.\<close> of every name
  by \<open>_\<close> and keeps every other character, leaves no \<open>.\<close> in any result, and is
  idempotent.
\<close>

theorem normalize_idempotent:
  "normalize_names (normalize_names xs) = normalize_names xs
   \<and> normalize_names xs = map (map (\<lambda>c. if c = CHR ''.'' then CHR ''_'' else c)) xs
   \<and> CHR ''.'' \<notin> \<Union> (set ` set (normalize_names xs))"
proof -
  let ?f = "\<lambda>c. if c = CHR ''.'' then CHR ''_'' else c"
  have ff: "?f \<circ> ?f = ?f" by (rule ext) simp
  have "normalize_names (normalize_names xs) = map (map (?f \<circ> ?f)) xs"
    by (simp add: normalize_map)
  then have a: "normalize_names (normalize_names xs) = normalize_names xs"
    by (simp only: ff normalize_map)
  have c: "CHR ''.'' \<notin> \<Union> (set ` set (normalize_names xs))"
    by (auto simp: normalize_map)
  from a c show ?thesis by (simp add: normalize_map)
qed

theorem normalize_idempotent_witness:
  "normalize_names (normalize_names [''v.b.12v.voltage'', '''']) = [''v_b_12v_voltage'', '''']
   \<and> normalize_names [''v.b.12v.voltage'', ''''] = [''v_b_12v_voltage'', '''']
   \<and> CHR ''.'' \<notin> \<Union> (set ` set (normalize_names [''v.b.12v.voltage'', '''']))"
  using normalize_idempotent [of "[''v.b.12v.voltage'', '''']"]
  by (simp add: normalize_map)

section \<open>The default filter\<close>

text \<open>
  C8. With the default filter \<open>^v_b_12v_voltage$\<close>, for a batch whose records all
  have a time that parses and at most 21 fields, one of them with 15 fields or more
  (so that the positions of \<open>v_m_temp\<close> and of \<open>v_b_12v_voltage\<close> both have values):
  the loop returns a map whose only key is \<open>v_b_12v_voltage\<close>, \<open>v_m_temp\<close> is not a
  key, and in every order of iteration the rendered text is the line
  \<open># TYPE v_b_12v_voltage gauge\<close> followed by the voltage lines of the records, in
  record order.
\<close>

theorem default_filter_snapshot:
  assumes "Compile filterFlag_default = Some re"
    and "list_all (\<lambda>r. pt (Timestamp r) \<noteq> None
                       \<and> length (Split (Data r) CHR '','') \<le> length dMetrics_hist) rs"
    and "list_ex (\<lambda>r. 14 < length (Split (Data r) CHR '','')) rs"
    and "unmarshal data = Some rs"
  shows "\<exists>ms. records_hist pt (MatchString re) rs Map.empty = Inr ms
            \<and> dom ms = {''v_b_12v_voltage''} \<and> ms ''v_m_temp'' = None
            \<and> (\<forall>ks. range_order ks ms \<longrightarrow>
                 fetchMetrics_hist unmarshal pt (MatchString re) ks data = Inr (render ks ms)
                 \<and> main_file unmarshal pt (MatchString re) ks data = Inr (render ks ms)
                 \<and> render ks ms =
                   ''# TYPE v_b_12v_voltage gauge'' @ NL
                   @ Join (map (\<lambda>r. ''v_b_12v_voltage '' @ Split (Data r) CHR '','' ! 14 @ '' ''
                                      @ fmt_d (the (pt (Timestamp r))))
                               (filter (\<lambda>r. 14 < length (Split (Data r) CHR '','')) rs)) NL
                   @ NL)"
proof -
  let ?v = "''v_b_12v_voltage''"
  let ?lines = "map (\<lambda>r. ''v_b_12v_voltage '' @ Split (Data r) CHR '','' ! 14 @ '' ''
                                      @ fmt_d (the (pt (Timestamp r))))
                               (filter (\<lambda>r. 14 < length (Split (Data r) CHR '','')) rs)"
  from records_hist_ok [OF assms(2)] obtain ms where
    ms: "records_hist pt (MatchString re) rs Map.empty = Inr ms" by blast
  have t: "list_all (\<lambda>r. pt (Timestamp r) \<noteq> None) rs"
    using records_hist_times [OF ms] .
  have bl: "batch_lines pt ?v rs = ?lines"
    using batch_lines_voltage [OF t] .
  have ne: "?lines \<noteq> []"
    using assms(3) by (auto simp: list_ex_iff filter_empty_conv)
  have look: "ms m = (if m = ?v then Some ?lines else None)" for m
    using records_hist_lookup [OF ms, of m] MatchString_default [OF assms(1), of m] bl ne
    by auto
  have d: "dom ms = {?v}"
    by (auto simp: look dom_def)
  have r: "render ks ms = ''# TYPE v_b_12v_voltage gauge'' @ NL @ Join ?lines NL @ NL"
    if "range_order ks ms" for ks
  proof -
    from that d have "ks = [?v]"
      by (simp add: range_order_def singleton_order)
    then show ?thesis by (simp add: render_def look)
  qed
  have f: "fetchMetrics_hist unmarshal pt (MatchString re) ks data = Inr (render ks ms)" for ks
    by (simp add: fetchMetrics_hist_def assms(4) ms)
  have g: "main_file unmarshal pt (MatchString re) ks data = Inr (render ks ms)" for ks
    by (simp add: main_file_def assms(4) ms)
  from ms d r f g look [of "''v_m_temp''"] show ?thesis by auto
qed

text \<open>Two records with a motor temperature and a voltage each.\<close>

theorem default_filter_snapshot_witness:
  "Compile filterFlag_default = Some (Bol # map Lit ''v_b_12v_voltage'' @ [Eol])
   \<and> list_all (\<lambda>r. parseTime_ex (Timestamp r) \<noteq> None
                       \<and> length (Split (Data r) CHR '','') \<le> length dMetrics_hist) [hrec_ex, hrec2_ex]
   \<and> list_ex (\<lambda>r. 14 < length (Split (Data r) CHR '','')) [hrec_ex, hrec2_ex]
   \<and> unmarshal_hist_ex body_hist_ex = Some [hrec_ex, hrec2_ex]
   \<and> (\<exists>ms. records_hist parseTime_ex (MatchString (Bol # map Lit ''v_b_12v_voltage'' @ [Eol]))
              [hrec_ex, hrec2_ex] Map.empty = Inr ms
          \<and> range_order [''v_b_12v_voltage''] ms
          \<and> ms ''v_m_temp'' = None)
   \<and> fetchMetrics_hist unmarshal_hist_ex parseTime_ex
        (MatchString (Bol # map Lit ''v_b_12v_voltage'' @ [Eol])) [''v_b_12v_voltage''] body_hist_ex =
       Inr (''# TYPE v_b_12v_voltage gauge'' @ NL
            @ ''v_b_12v_voltage 12.6 1700000000000'' @ NL
            @ ''v_b_12v_voltage 12.6 1700000001000'' @ NL)"
proof -
  have h1: "Compile filterFlag_default = Some (Bol # map Lit ''v_b_12v_voltage'' @ [Eol])"
    by (rule Compile_default)
  have h2: "list_all (\<lambda>r. parseTime_ex (Timestamp r) \<noteq> None
                       \<and> length (Split (Data r) CHR '','') \<le> length dMetrics_hist) [hrec_ex, hrec2_ex]"
    by (simp add: hrec_ex_def hrec2_ex_def parseTime_ex_def len_hist)
  have h3: "list_ex (\<lambda>r. 14 < length (Split (Data r) CHR '','')) [hrec_ex, hrec2_ex]"
    by (simp add: hrec_ex_def)
  have h4: "unmarshal_hist_ex body_hist_ex = Some [hrec_ex, hrec2_ex]"
    by (simp add: unmarshal_hist_ex_def)
  from default_filter_snapshot [where unmarshal = unmarshal_hist_ex and data = body_hist_ex,
      OF h1 h2 h3 h4] obtain ms where
    ms: "records_hist parseTime_ex (MatchString (Bol # map Lit ''v_b_12v_voltage'' @ [Eol]))
              [hrec_ex, hrec2_ex] Map.empty = Inr ms"
    and d: "dom ms = {''v_b_12v_voltage''}" and n: "ms ''v_m_temp'' = None"
    and r: "\<forall>ks. range_order ks ms \<longrightarrow>
                 fetchMetrics_hist unmarshal_hist_ex parseTime_ex
                   (MatchString (Bol # map Lit ''v_b_12v_voltage'' @ [Eol])) ks body_hist_ex
                   = Inr (render ks ms)
                 \<and> main_file unmarshal_hist_ex parseTime_ex
                   (MatchString (Bol # map Lit ''v_b_12v_voltage'' @ [Eol])) ks body_hist_ex
                   = Inr (render ks ms)
                 \<and> render ks ms =
                   ''# TYPE v_b_12v_voltage gauge'' @ NL
                   @ Join (map (\<lambda>r. ''v_b_12v_voltage '' @ Split (Data r) CHR '','' ! 14 @ '' ''
                                      @ fmt_d (the (parseTime_ex (Timestamp r))))
                               (filter (\<lambda>r. 14 < length (Split (Data r) CHR '','')) [hrec_ex, hrec2_ex])) NL
                   @ NL"
    by blast
  from d have o: "range_order [''v_b_12v_voltage''] ms"
    by (simp add: range_order_def)
  from r o have "fetchMetrics_hist unmarshal_hist_ex parseTime_ex
        (MatchString (Bol # map Lit ''v_b_12v_voltage'' @ [Eol])) [''v_b_12v_voltage''] body_hist_ex =
       Inr (''# TYPE v_b_12v_voltage gauge'' @ NL
            @ ''v_b_12v_voltage 12.6 1700000000000'' @ NL
            @ ''v_b_12v_voltage 12.6 1700000001000'' @ NL)"
    by (simp add: hrec_ex_def hrec2_ex_def parseTime_ex_def fmt_d_def digits.simps digit_def)
  with h1 h2 h3 h4 ms o n show ?thesis by blast
qed

section \<open>The filter as a search\<close>

text \<open>
  C9. The filter is an unanchored search. A pattern that is a literal text compiles to
  its characters, and it matches a name exactly when the text occurs somewhere in the
  name. The pattern \<open>v_b\<close> selects the four names of the schema that contain it. The
  default pattern is anchored at both ends: it matches the name \<open>v_b_12v_voltage\<close>
  and no other string, so it selects one name of the schema. In the loop, a metric
  gets a key exactly when the filter matches its name and one of its positions has a
  value.
\<close>

theorem filter_is_unanchored_search:
  "(literal_pattern p \<longrightarrow>
      Compile p = Some (map Lit p) \<and> (MatchString (map Lit p) s \<longleftrightarrow> sublist p s))
   \<and> Compile ''v_b'' = Some (map Lit ''v_b'')
   \<and> filter (MatchString (map Lit ''v_b'')) dMetrics_hist =
        [''v_b_temp'', ''v_b_12v_voltage'', ''v_b_12v_voltage_ref'', ''v_b_12v_current'']
   \<and> (Compile filterFlag_default = Some re \<longrightarrow>
        (MatchString re s \<longleftrightarrow> s = ''v_b_12v_voltage'')
        \<and> filter (MatchString re) dMetrics_hist = [''v_b_12v_voltage''])
   \<and> (records_hist pt filt rs Map.empty = Inr ms \<longrightarrow>
        dom ms = {m. filt m \<and> batch_lines pt m rs \<noteq> []})"
proof -
  have a: "literal_pattern p \<longrightarrow>
      Compile p = Some (map Lit p) \<and> (MatchString (map Lit p) s \<longleftrightarrow> sublist p s)"
    by (simp add: Compile_lits MatchString_def search_lits)
  have b: "Compile ''v_b'' = Some (map Lit ''v_b'')"
    by (rule Compile_lits) (simp add: literal_pattern_def meta_def)
  have c: "filter (MatchString (map Lit ''v_b'')) dMetrics_hist =
        [''v_b_temp'', ''v_b_12v_voltage'', ''v_b_12v_voltage_ref'', ''v_b_12v_current'']"
    by (simp add: dMetrics_hist_eq MatchString_def)
  have d: "Compile filterFlag_default = Some re \<longrightarrow>
        (MatchString re s \<longleftrightarrow> s = ''v_b_12v_voltage'')
        \<and> filter (MatchString re) dMetrics_hist = [''v_b_12v_voltage'']"
    by (auto simp: MatchString_default dMetrics_hist_eq)
  have e: "records_hist pt filt rs Map.empty = Inr ms \<longrightarrow>
        dom ms = {m. filt m \<and> batch_lines pt m rs \<noteq> []}"
  proof
    assume h: "records_hist pt filt rs Map.empty = Inr ms"
    show "dom ms = {m. filt m \<and> batch_lines pt m rs \<noteq> []}"
      using records_hist_lookup [OF h] by (auto simp: dom_def split: if_splits)
  qed
  from a b c d e show ?thesis by blast
qed

text \<open>
  The literal pattern \<open>12v\<close> matches \<open>v_b_12v_current\<close> in its middle; on a record of
  17 fields it keeps the two metrics whose names contain it and that have a value.
\<close>

theorem filter_is_unanchored_search_witness:
  "literal_pattern ''12v''
   \<and> Compile ''12v'' = Some (map Lit ''12v'')
   \<and> MatchString (map Lit ''12v'') ''v_b_12v_current''
   \<and> sublist ''12v'' ''v_b_12v_current''
   \<and> Compile filterFlag_default = Some (Bol # map Lit ''v_b_12v_voltage'' @ [Eol])
   \<and> \<not> MatchString (Bol # map Lit ''v_b_12v_voltage'' @ [Eol]) ''v_b_12v_voltage_ref''
   \<and> filter (MatchString (Bol # map Lit ''v_b_12v_voltage'' @ [Eol])) dMetrics_hist = [''v_b_12v_voltage'']
   \<and> records_hist parseTime_ex (MatchString (map Lit ''12v'')) [hrec2_ex] Map.empty
       = Inr [''v_b_12v_voltage'' \<mapsto> [''v_b_12v_voltage 12.6 1700000001000''],
              ''v_b_12v_voltage_ref'' \<mapsto> [''v_b_12v_voltage_ref 12.6 1700000001000'']]
   \<and> dom [''v_b_12v_voltage'' \<mapsto> [''v_b_12v_voltage 12.6 1700000001000''],
              ''v_b_12v_voltage_ref'' \<mapsto> [''v_b_12v_voltage_ref 12.6 1700000001000'']]
       = {m. MatchString (map Lit ''12v'') m \<and> batch_lines parseTime_ex m [hrec2_ex] \<noteq> []}"
proof -
  have l: "literal_pattern ''12v''"
    by (simp add: literal_pattern_def meta_def)
  have m: "MatchString (map Lit ''12v'') ''v_b_12v_current''"
    by (simp add: MatchString_def)
  have h: "records_hist parseTime_ex (MatchString (map Lit ''12v'')) [hrec2_ex] Map.empty
       = Inr [''v_b_12v_voltage'' \<mapsto> [''v_b_12v_voltage 12.6 1700000001000''],
              ''v_b_12v_voltage_ref'' \<mapsto> [''v_b_12v_voltage_ref 12.6 1700000001000'']]"
    by (simp add: dMetrics_hist_eq hrec2_ex_def parseTime_ex_def MatchString_def add_sample_def
        fmt_d_def digits.simps digit_def)
  note t = filter_is_unanchored_search [of "''12v''" "''v_b_12v_current''"
      "Bol # map Lit ''v_b_12v_voltage'' @ [Eol]" parseTime_ex "MatchString (map Lit ''12v'')"
      "[hrec2_ex]" "[''v_b_12v_voltage'' \<mapsto> [''v_b_12v_voltage 12.6 1700000001000''],
              ''v_b_12v_voltage_ref'' \<mapsto> [''v_b_12v_voltage_ref 12.6 1700000001000'']]"]
  have n: "\<not> MatchString (Bol # map Lit ''v_b_12v_voltage'' @ [Eol]) ''v_b_12v_voltage_ref''"
    using MatchString_anchored [of "''v_b_12v_voltage''" "''v_b_12v_voltage_ref''"] by simp
  from t l m h n Compile_default show ?thesis by simp
qed

end
